theory Spec2Isabelle
  imports Complex_Main "HOL-Library.Char_ord" "HOL-Library.List_Lexorder"
begin

section \<open>Data model\<close>

text \<open>
  The exceptions the modelled Python code can raise: \<open>int\<close> and \<open>float\<close> raise
  \<open>ValueError\<close> on text that is no number and \<open>TypeError\<close> on \<open>None\<close>;
  \<open>x in None\<close> raises \<open>TypeError\<close>; \<open>d[k]\<close> on a missing key raises \<open>KeyError\<close>;
  \<open>xs[i]\<close> out of range raises \<open>IndexError\<close>.
\<close>

datatype error = ValueError | TypeError | KeyError | IndexError

text \<open>
  A Python float: a finite value, one of the two infinities, or not-a-number.
  Only comparisons are performed on these values (\<open>min\<close> and \<open>max\<close>), never arithmetic.
\<close>

datatype pyfloat = NegInf | Fin real | PosInf | NaN

text \<open>The \<open>.text\<close> of an element: \<open>None\<close> for an element without text, else the string.\<close>

type_synonym pytext = "string option"

text \<open>
  An event is the dictionary built by \<open>_parse_instance\<close>. The keys \<open>id\<close>,
  \<open>start_time\<close>, \<open>end_time\<close> and \<open>code\<close> may be missing (\<open>None\<close> here); the key
  \<open>code\<close> may be present and hold Python's \<open>None\<close> (\<open>Some None\<close> here); the key
  \<open>labels\<close> is always set. The labels dictionary may have \<open>None\<close> as a key and as a value,
  because both come from \<open>.text\<close>.
\<close>

record event =
  id_field :: "int option"
  start_time :: "pyfloat option"
  end_time :: "pyfloat option"
  code :: "pytext option"
  labels :: "pytext \<rightharpoonup> pytext"

text \<open>The dictionary \<open>stats\<close> of \<open>get_summary_stats\<close>; \<open>teams\<close> is a set until the last line
  turns it into a list whose order Python leaves to the hash values, so it stays a set here.\<close>

record summary_stats =
  total_events :: nat
  teams :: "string set"
  actions :: "string \<rightharpoonup> int"
  halves :: "string \<rightharpoonup> int"
  time_range_start :: pyfloat
  time_range_end :: pyfloat

text \<open>What \<open>get_summary_stats\<close> returns: the empty dictionary \<open>{}\<close> or the filled one.\<close>

datatype stats_dict = EmptyDict | StatsDict summary_stats

text \<open>
  An element of the parsed document, as \<open>xml.etree.ElementTree\<close> holds it: its tag, its
  \<open>.text\<close> and its child elements in document order.
\<close>

datatype xml = Element (tag: string) (text_of: pytext) (children: "xml list")

text \<open>The parser object: \<open>self.root\<close> (\<open>None\<close> until a document is loaded) and \<open>self.events\<close>.\<close>

record parser =
  root_node :: "xml option"
  events :: "event list"

section \<open>Python primitives\<close>

text \<open>\<open>a < b\<close> on floats: every comparison with not-a-number is false.\<close>

fun py_lt :: "pyfloat \<Rightarrow> pyfloat \<Rightarrow> bool" where
  "py_lt NaN _ = False"
| "py_lt _ NaN = False"
| "py_lt NegInf NegInf = False"
| "py_lt NegInf _ = True"
| "py_lt (Fin a) (Fin b) = (a < b)"
| "py_lt (Fin a) PosInf = True"
| "py_lt (Fin a) NegInf = False"
| "py_lt PosInf _ = False"

text \<open>\<open>min(a, b)\<close> keeps \<open>a\<close> unless \<open>b < a\<close>; \<open>max(a, b)\<close> keeps \<open>a\<close> unless \<open>b > a\<close>.\<close>

definition py_min :: "pyfloat \<Rightarrow> pyfloat \<Rightarrow> pyfloat" where
  "py_min a b = (if py_lt b a then b else a)"

definition py_max :: "pyfloat \<Rightarrow> pyfloat \<Rightarrow> pyfloat" where
  "py_max a b = (if py_lt a b then b else a)"

text \<open>\<open>d.get(k)\<close> on the labels: \<open>None\<close> when the key is missing, else the stored value
  (which may itself be \<open>None\<close>).\<close>

definition labels_get :: "(pytext \<rightharpoonup> pytext) \<Rightarrow> string \<Rightarrow> pytext" where
  "labels_get ls k = (case ls (Some k) of None \<Rightarrow> None | Some v \<Rightarrow> v)"

text \<open>\<open>sub in s\<close> on strings.\<close>

fun startswith :: "string \<Rightarrow> string \<Rightarrow> bool" where
  "startswith s [] = True"
| "startswith [] (p # ps) = False"
| "startswith (c # cs) (p # ps) = (c = p \<and> startswith cs ps)"

fun str_contains :: "string \<Rightarrow> string \<Rightarrow> bool" where
  "str_contains [] sub = (sub = [])"
| "str_contains (c # cs) sub = (startswith (c # cs) sub \<or> str_contains cs sub)"

section \<open>Event extraction\<close>

text \<open>
  \<open>elem.find(t)\<close> is the first child with tag \<open>t\<close>, \<open>elem.findall(t)\<close> all such children
  in order, and \<open>elem.find('.//t')\<close> the first element with tag \<open>t\<close> among the elements
  below \<open>elem\<close> (\<open>elem\<close> itself excluded) in document order.
\<close>

definition find_child :: "string \<Rightarrow> xml \<Rightarrow> xml option" where
  "find_child t x = List.find (\<lambda>c. tag c = t) (children x)"

definition findall :: "string \<Rightarrow> xml \<Rightarrow> xml list" where
  "findall t x = filter (\<lambda>c. tag c = t) (children x)"

fun descendants :: "xml \<Rightarrow> xml list" where
  "descendants (Element t x cs) = concat (map (\<lambda>c. c # descendants c) cs)"

definition find_descendant :: "string \<Rightarrow> xml \<Rightarrow> xml option" where
  "find_descendant t x = List.find (\<lambda>d. tag d = t) (descendants x)"

text \<open>
  \<open>int(elem.text)\<close> and \<open>float(elem.text)\<close> behind the test \<open>elem is not None\<close>. The
  conversion of a string is Python's own and is a parameter \<open>conv\<close> here, \<open>None\<close> where
  Python raises \<open>ValueError\<close>; on the text \<open>None\<close> both raise \<open>TypeError\<close>.
\<close>

definition to_number :: "(string \<Rightarrow> 'a option) \<Rightarrow> xml option \<Rightarrow> error + 'a option" where
  "to_number conv elem =
     (case elem of
        None \<Rightarrow> Inr None
      | Some el \<Rightarrow>
          (case text_of el of
             None \<Rightarrow> Inl TypeError
           | Some t \<Rightarrow> (case conv t of None \<Rightarrow> Inl ValueError | Some v \<Rightarrow> Inr (Some v))))"

text \<open>The loop over the \<open>label\<close> children: a label with both a \<open>group\<close> and a \<open>text\<close>
  child stores \<open>labels[group.text] = text.text\<close>, any other label is passed over.\<close>

definition add_label :: "(pytext \<rightharpoonup> pytext) \<Rightarrow> xml \<Rightarrow> (pytext \<rightharpoonup> pytext)" where
  "add_label ls l =
     (case find_child ''group'' l of
        None \<Rightarrow> ls
      | Some g \<Rightarrow>
          (case find_child ''text'' l of
             None \<Rightarrow> ls
           | Some t \<Rightarrow> ls(text_of g \<mapsto> text_of t)))"

definition parse_labels :: "xml \<Rightarrow> (pytext \<rightharpoonup> pytext)" where
  "parse_labels inst = foldl add_label Map.empty (findall ''label'' inst)"

text \<open>\<open>_parse_instance\<close>: the three numbers are converted in the order \<open>ID\<close>, \<open>start\<close>,
  \<open>end\<close>, so the first failing one raises.\<close>

definition parse_instance ::
  "(string \<Rightarrow> int option) \<Rightarrow> (string \<Rightarrow> pyfloat option) \<Rightarrow> xml \<Rightarrow> error + event" where
  "parse_instance int_of float_of inst =
     (case to_number int_of (find_child ''ID'' inst) of
        Inl err \<Rightarrow> Inl err
      | Inr i \<Rightarrow>
          (case to_number float_of (find_child ''start'' inst) of
             Inl err \<Rightarrow> Inl err
           | Inr s \<Rightarrow>
               (case to_number float_of (find_child ''end'' inst) of
                  Inl err \<Rightarrow> Inl err
                | Inr t \<Rightarrow>
                    Inr \<lparr>id_field = i, start_time = s, end_time = t,
                         code = map_option text_of (find_child ''code'' inst),
                         labels = parse_labels inst\<rparr>)))"

text \<open>The test \<open>if event:\<close> is the truth value of the dictionary: it has at least one key.\<close>

definition dict_len :: "event \<Rightarrow> nat" where
  "dict_len e =
     (if id_field e = None then 0 else 1) + (if start_time e = None then 0 else 1) +
     (if end_time e = None then 0 else 1) + (if code e = None then 0 else 1) + 1"

text \<open>The loop of \<open>extract_events\<close>, appending to \<open>self.events\<close>; an exception leaves the
  events appended so far.\<close>

fun parse_all ::
  "(string \<Rightarrow> int option) \<Rightarrow> (string \<Rightarrow> pyfloat option) \<Rightarrow> xml list \<Rightarrow> event list
     \<Rightarrow> error option \<times> event list" where
  "parse_all int_of float_of [] evs = (None, evs)"
| "parse_all int_of float_of (inst # rest) evs =
     (case parse_instance int_of float_of inst of
        Inl err \<Rightarrow> (Some err, evs)
      | Inr ev \<Rightarrow>
          parse_all int_of float_of rest (if dict_len ev \<noteq> 0 then evs @ [ev] else evs))"

text \<open>
  \<open>extract_events\<close> returns the pair of what the call gives (an exception, \<open>None\<close> from
  one of the two bare \<open>return\<close>s, or the list of events) and the parser afterwards.
  \<open>not self.root\<close> holds for \<open>None\<close> and for an element without children.
\<close>

definition extract_events ::
  "(string \<Rightarrow> int option) \<Rightarrow> (string \<Rightarrow> pyfloat option) \<Rightarrow> parser
     \<Rightarrow> (error + event list option) \<times> parser" where
  "extract_events int_of float_of p =
     (case root_node p of
        None \<Rightarrow> (Inr None, p)
      | Some r \<Rightarrow>
          if children r = [] then (Inr None, p)
          else (case find_descendant ''ALL_INSTANCES'' r of
                  None \<Rightarrow> (Inr None, p)
                | Some instances \<Rightarrow>
                    (case parse_all int_of float_of (findall ''instance'' instances) [] of
                       (None, evs) \<Rightarrow> (Inr (Some evs), p\<lparr>events := evs\<rparr>)
                     | (Some err, evs) \<Rightarrow> (Inl err, p\<lparr>events := evs\<rparr>))))"

text \<open>
  Conditions on the numeric children of an instance, used to state what extraction does.
  A child \<open>contains non-numeric text\<close> when it is present, has text, and the conversion of
  that text fails. A child is \<open>numeric_ok\<close> when it is missing or holds text that converts;
  it \<open>has_text\<close> when it is missing or its text is not \<open>None\<close>.
\<close>

definition non_numeric :: "(string \<Rightarrow> 'a option) \<Rightarrow> xml option \<Rightarrow> bool" where
  "non_numeric conv elem =
     (case elem of
        None \<Rightarrow> False
      | Some el \<Rightarrow> (case text_of el of None \<Rightarrow> False | Some t \<Rightarrow> conv t = None))"

definition numeric_ok :: "(string \<Rightarrow> 'a option) \<Rightarrow> xml option \<Rightarrow> bool" where
  "numeric_ok conv elem =
     (case elem of
        None \<Rightarrow> True
      | Some el \<Rightarrow> (case text_of el of None \<Rightarrow> False | Some t \<Rightarrow> conv t \<noteq> None))"

definition has_text :: "xml option \<Rightarrow> bool" where
  "has_text elem = (case elem of None \<Rightarrow> True | Some el \<Rightarrow> text_of el \<noteq> None)"

definition bad_instance ::
  "(string \<Rightarrow> int option) \<Rightarrow> (string \<Rightarrow> pyfloat option) \<Rightarrow> xml \<Rightarrow> bool" where
  "bad_instance int_of float_of inst =
     (non_numeric int_of (find_child ''ID'' inst) \<or>
      non_numeric float_of (find_child ''start'' inst) \<or>
      non_numeric float_of (find_child ''end'' inst))"

definition well_formed_instance ::
  "(string \<Rightarrow> int option) \<Rightarrow> (string \<Rightarrow> pyfloat option) \<Rightarrow> xml \<Rightarrow> bool" where
  "well_formed_instance int_of float_of inst =
     (numeric_ok int_of (find_child ''ID'' inst) \<and>
      numeric_ok float_of (find_child ''start'' inst) \<and>
      numeric_ok float_of (find_child ''end'' inst))"

definition texts_present :: "xml \<Rightarrow> bool" where
  "texts_present inst =
     (has_text (find_child ''ID'' inst) \<and> has_text (find_child ''start'' inst) \<and>
      has_text (find_child ''end'' inst))"

section \<open>Query layer of \<open>InstatEventParser\<close>\<close>

text \<open>
  \<open>get_events_by_action\<close> and \<open>get_events_by_half\<close>: a list comprehension over
  \<open>self.events\<close> keeping the events whose label equals the argument. A missing label and
  a label holding \<open>None\<close> both give \<open>None\<close>, which differs from every string.
\<close>

definition get_events_by_action :: "string \<Rightarrow> event list \<Rightarrow> event list" where
  "get_events_by_action action_type evs =
     filter (\<lambda>e. labels_get (labels e) ''Action'' = Some action_type) evs"

definition get_events_by_half :: "string \<Rightarrow> event list \<Rightarrow> event list" where
  "get_events_by_half half evs =
     filter (\<lambda>e. labels_get (labels e) ''Half'' = Some half) evs"

text \<open>
  \<open>get_events_by_team\<close>: the test is \<open>team_name in labels.get('Team', '')\<close>. The default
  \<open>''\<close> is used only when the key is missing; a key that holds \<open>None\<close> makes \<open>in\<close> raise
  \<open>TypeError\<close>, which ends the comprehension.
\<close>

definition team_test :: "string \<Rightarrow> event \<Rightarrow> error + bool" where
  "team_test team_name e =
     (case labels e (Some ''Team'') of
        None \<Rightarrow> Inr (str_contains [] team_name)
      | Some None \<Rightarrow> Inl TypeError
      | Some (Some t) \<Rightarrow> Inr (str_contains t team_name))"

fun get_events_by_team :: "string \<Rightarrow> event list \<Rightarrow> error + event list" where
  "get_events_by_team team_name [] = Inr []"
| "get_events_by_team team_name (e # es) =
     (case team_test team_name e of
        Inl err \<Rightarrow> Inl err
      | Inr keep \<Rightarrow>
          (case get_events_by_team team_name es of
             Inl err \<Rightarrow> Inl err
           | Inr rest \<Rightarrow> Inr (if keep then e # rest else rest)))"

text \<open>
  \<open>get_summary_stats\<close>. One pass of the loop body: the team is added when it is truthy and
  not the string \<open>None\<close>; the action and the half are counted when truthy; when the key
  \<open>start_time\<close> is present the range is updated, reading \<open>event['end_time']\<close>, which raises
  \<open>KeyError\<close> when that key is missing.
\<close>

definition count_up :: "(string \<rightharpoonup> int) \<Rightarrow> pytext \<Rightarrow> (string \<rightharpoonup> int)" where
  "count_up m t =
     (case t of
        None \<Rightarrow> m
      | Some k \<Rightarrow> if k = [] then m
                  else m(k \<mapsto> (case m k of None \<Rightarrow> 0 | Some n \<Rightarrow> n) + 1))"

definition add_team :: "string set \<Rightarrow> pytext \<Rightarrow> string set" where
  "add_team ts team =
     (case team of
        None \<Rightarrow> ts
      | Some t \<Rightarrow> if t \<noteq> [] \<and> t \<noteq> ''None'' then insert t ts else ts)"

definition summary_step :: "event \<Rightarrow> summary_stats \<Rightarrow> error + summary_stats" where
  "summary_step e st =
     (let st1 = st\<lparr>teams := add_team (teams st) (labels_get (labels e) ''Team'')\<rparr>;
          st2 = st1\<lparr>actions := count_up (actions st1) (labels_get (labels e) ''Action'')\<rparr>;
          st3 = st2\<lparr>halves := count_up (halves st2) (labels_get (labels e) ''Half'')\<rparr>
      in case start_time e of
           None \<Rightarrow> Inr st3
         | Some s \<Rightarrow>
             (case end_time e of
                None \<Rightarrow> Inl KeyError
              | Some t \<Rightarrow>
                  Inr (st3\<lparr>time_range_start := py_min (time_range_start st3) s,
                           time_range_end := py_max (time_range_end st3) t\<rparr>)))"

fun summary_loop :: "event list \<Rightarrow> summary_stats \<Rightarrow> error + summary_stats" where
  "summary_loop [] st = Inr st"
| "summary_loop (e # es) st =
     (case summary_step e st of Inl err \<Rightarrow> Inl err | Inr st' \<Rightarrow> summary_loop es st')"

definition initial_stats :: "event list \<Rightarrow> summary_stats" where
  "initial_stats evs =
     \<lparr>total_events = length evs, teams = {}, actions = Map.empty, halves = Map.empty,
      time_range_start = PosInf, time_range_end = Fin 0\<rparr>"

definition get_summary_stats :: "event list \<Rightarrow> error + stats_dict" where
  "get_summary_stats evs =
     (if evs = [] then Inr EmptyDict
      else case summary_loop evs (initial_stats evs) of
             Inl err \<Rightarrow> Inl err
           | Inr st \<Rightarrow> Inr (StatsDict st))"

section \<open>Notions used to state the properties of the query layer\<close>

text \<open>
  The \<open>Team\<close> label of an event as a string, with the default \<open>''\<close> of
  \<open>get_events_by_team\<close> when the key is missing; \<open>team_has_text\<close> says the key does not hold
  \<open>None\<close>.
\<close>

definition team_has_text :: "event \<Rightarrow> bool" where
  "team_has_text e = (labels e (Some ''Team'') \<noteq> Some None)"

definition team_label :: "event \<Rightarrow> string" where
  "team_label e = (case labels e (Some ''Team'') of Some (Some t) \<Rightarrow> t | _ \<Rightarrow> [])"

text \<open>
  The least and the greatest element of a set of floats under Python's \<open><\<close>: a member that
  is a number and has no member below (above) it. Among numbers \<open><\<close> is a total order, so
  there is at most one such element; not-a-number compares false with everything and is
  never the least or greatest.
\<close>

definition least_of :: "pyfloat set \<Rightarrow> pyfloat \<Rightarrow> bool" where
  "least_of S x = (x \<in> S \<and> x \<noteq> NaN \<and> (\<forall>y \<in> S. \<not> py_lt y x))"

definition greatest_of :: "pyfloat set \<Rightarrow> pyfloat \<Rightarrow> bool" where
  "greatest_of S x = (x \<in> S \<and> x \<noteq> NaN \<and> (\<forall>y \<in> S. \<not> py_lt x y))"

text \<open>
  The start times of the events that carry one, the end times of the events that carry a
  start time, and the condition that every event with a start time has an end time.
\<close>

definition start_times :: "event list \<Rightarrow> pyfloat set" where
  "start_times evs = {s. \<exists>e \<in> set evs. start_time e = Some s}"

definition gated_end_times :: "event list \<Rightarrow> pyfloat set" where
  "gated_end_times evs = {t. \<exists>e \<in> set evs. start_time e \<noteq> None \<and> end_time e = Some t}"

definition ends_present :: "event list \<Rightarrow> bool" where
  "ends_present evs = (\<forall>e \<in> set evs. start_time e \<noteq> None \<longrightarrow> end_time e \<noteq> None)"

section \<open>Player names from the \<open>code\<close> column\<close>

text \<open>
  \<open>s.split(sep)\<close> and \<open>s.split(sep, maxsplit)\<close> for a non-empty separator: the string is
  cut at the occurrences of \<open>sep\<close> found from left to right, at most \<open>maxsplit\<close> of them
  (\<open>None\<close>: no limit); \<open>cur\<close> is the piece being read.
\<close>

fun split_from :: "string \<Rightarrow> nat option \<Rightarrow> string \<Rightarrow> string \<Rightarrow> string list" where
  "split_from sep m cur [] = [cur]"
| "split_from sep m cur (c # cs) =
     (if m \<noteq> Some 0 \<and> sep \<noteq> [] \<and> startswith (c # cs) sep
      then cur # split_from sep (map_option (\<lambda>k. k - 1) m) [] (drop (length sep - 1) cs)
      else split_from sep m (cur @ [c]) cs)"

definition py_split :: "string \<Rightarrow> nat option \<Rightarrow> string \<Rightarrow> string list" where
  "py_split sep maxsplit s = split_from sep maxsplit [] s"

text \<open>\<open>xs[i]\<close> for an index \<open>i \<ge> 0\<close>.\<close>

definition py_index :: "'a list \<Rightarrow> nat \<Rightarrow> error + 'a" where
  "py_index xs i = (if i < length xs then Inr (xs ! i) else Inl IndexError)"

text \<open>\<open>s.strip()\<close>: the white space of \<open>str.isspace\<close> among the characters a \<open>char\<close> can
  hold (code points below 256) is removed at both ends.\<close>

definition isspace :: "char \<Rightarrow> bool" where
  "isspace c =
     (let n = (of_char c :: nat)
      in (9 \<le> n \<and> n \<le> 13) \<or> (28 \<le> n \<and> n \<le> 32) \<or> n = 133 \<or> n = 160)"

definition strip :: "string \<Rightarrow> string" where
  "strip s = rev (dropWhile isspace (rev (dropWhile isspace s)))"

text \<open>
  The body of the loop of \<open>get_player_list_from_df\<close> (the same lines are in
  \<open>PlayerReport.get_player_list\<close>) for one code: \<open>Inr (Some name)\<close> when a name is added to
  \<open>players\<close>, \<open>Inr None\<close> when nothing is added, \<open>Inl\<close> when the indexing raises.
\<close>

definition decompose_player_code :: "string \<Rightarrow> error + string option" where
  "decompose_player_code c =
     (if str_contains c '' - '' \<and> str_contains c ''.'' \<and> str_contains c ''(''
      then (case py_index (py_split '' - '' None c) 0 of
              Inl err \<Rightarrow> Inl err
            | Inr player_part \<Rightarrow>
                (case py_index (py_split ''.'' (Some 1) player_part) 1 of
                   Inl err \<Rightarrow> Inl err
                 | Inr rest \<Rightarrow>
                     (case py_index (py_split ''('' None rest) 0 of
                        Inl err \<Rightarrow> Inl err
                      | Inr before_paren \<Rightarrow>
                          (let player_name = strip before_paren
                           in if player_name \<noteq> [] \<and> player_name \<noteq> ''None''
                              then Inr (Some player_name) else Inr None))))
      else Inr None)"

text \<open>The loop itself, over the codes left by \<open>dropna()\<close>, filling the set \<open>players\<close>; the
  function returns the sorted list of that set.\<close>

fun collect_players :: "string list \<Rightarrow> string set \<Rightarrow> error + string set" where
  "collect_players [] players = Inr players"
| "collect_players (c # cs) players =
     (case decompose_player_code c of
        Inl err \<Rightarrow> Inl err
      | Inr None \<Rightarrow> collect_players cs players
      | Inr (Some player_name) \<Rightarrow> collect_players cs (insert player_name players))"

definition dropna :: "pytext list \<Rightarrow> string list" where
  "dropna col = map the (filter (\<lambda>v. v \<noteq> None) col)"

definition get_player_list_from_df :: "pytext list \<Rightarrow> error + string list" where
  "get_player_list_from_df code_column =
     (case collect_players (dropna code_column) {} of
        Inl err \<Rightarrow> Inl err
      | Inr players \<Rightarrow> Inr (sorted_list_of_set players))"

text \<open>
  The decomposition in the words of the specification: the part of a string before the
  first occurrence of a separator (the whole string when there is none), the part after
  the first occurrence, and the trimmed middle segment of a code.
\<close>

fun before_first :: "string \<Rightarrow> string \<Rightarrow> string" where
  "before_first sep [] = []"
| "before_first sep (c # cs) =
     (if startswith (c # cs) sep then [] else c # before_first sep cs)"

fun after_first :: "string \<Rightarrow> string \<Rightarrow> string" where
  "after_first sep [] = []"
| "after_first sep (c # cs) =
     (if startswith (c # cs) sep then drop (length sep) (c # cs) else after_first sep cs)"

definition name_segment :: "string \<Rightarrow> string" where
  "name_segment c = strip (before_first ''('' (after_first ''.'' (before_first '' - '' c)))"

definition has_markers :: "string \<Rightarrow> bool" where
  "has_markers c = (str_contains c '' - '' \<and> str_contains c ''.'' \<and> str_contains c ''('')"

section \<open>Sample inputs\<close>

text \<open>
  Concrete inputs on which the theorems below are instantiated: a conversion of a few
  numerals standing for \<open>int\<close> and \<open>float\<close>, and three small documents.
\<close>

definition sample_int :: "string \<Rightarrow> int option" where
  "sample_int s = (if s = ''1'' then Some 1 else if s = ''2'' then Some 2 else None)"

definition sample_float :: "string \<Rightarrow> pyfloat option" where
  "sample_float s =
     (if s = ''0.5'' then Some (Fin (1 / 2)) else if s = ''3'' then Some (Fin 3) else None)"

definition leaf :: "string \<Rightarrow> string \<Rightarrow> xml" where
  "leaf t s = Element t (Some s) []"

definition doc_two_instances :: xml where
  "doc_two_instances =
     Element ''file'' None
       [Element ''SESSION_INFO'' None [],
        Element ''ALL_INSTANCES'' None
          [Element ''instance'' None
             [leaf ''ID'' ''1'', leaf ''start'' ''0.5'', leaf ''end'' ''3'',
              leaf ''code'' ''12.John Smith(5) - Passes accurate'',
              Element ''label'' None [leaf ''group'' ''Team'', leaf ''text'' ''A'']],
           Element ''instance'' None []]]"

definition doc_bad_id :: xml where
  "doc_bad_id =
     Element ''file'' None
       [Element ''ALL_INSTANCES'' None
          [Element ''instance'' None [leaf ''ID'' ''1''],
           Element ''instance'' None [leaf ''ID'' ''abc'']]]"

definition doc_no_container :: xml where
  "doc_no_container = Element ''file'' None [Element ''SESSION_INFO'' None []]"

text \<open>
  A document whose only instance has a \<open>start\<close> child but no \<open>end\<close> child, a \<open>Team\<close> label
  whose \<open>text\<close> element is empty, and a code with the dot after the dash.
\<close>

definition doc_soft_fields :: xml where
  "doc_soft_fields =
     Element ''file'' None
       [Element ''ALL_INSTANCES'' None
          [Element ''instance'' None
             [leaf ''start'' ''0.5'',
              leaf ''code'' ''Goal - J. Smith (pen)'',
              Element ''label'' None [leaf ''group'' ''Team'', Element ''text'' None []]]]]"

text \<open>Events: one per combination of keys the properties below need.\<close>

definition labelled :: "(pytext \<rightharpoonup> pytext) \<Rightarrow> event" where
  "labelled ls = \<lparr>id_field = None, start_time = None, end_time = None, code = None, labels = ls\<rparr>"

definition ev_team_empty :: event where
  "ev_team_empty = labelled [Some ''Team'' \<mapsto> None]"

definition ev_team_bnei :: event where
  "ev_team_bnei = labelled [Some ''Team'' \<mapsto> Some ''Bnei Yehuda Tel-Aviv U19'']"

definition ev_no_team :: event where
  "ev_no_team = labelled [Some ''Half'' \<mapsto> Some ''1'']"

definition ev_start_only :: event where
  "ev_start_only = (labelled Map.empty)\<lparr>start_time := Some (Fin (1 / 2))\<rparr>"

definition ev_timed :: event where
  "ev_timed = (labelled Map.empty)\<lparr>start_time := Some (Fin (1 / 2)), end_time := Some (Fin 3)\<rparr>"

section \<open>Summary of an empty event list\<close>

text \<open>
  C1 (as amended): \<open>get_summary_stats\<close> on an empty event list takes the early return
  and gives the empty dictionary, with none of the keys \<open>total_events\<close>, \<open>teams\<close>,
  \<open>actions\<close>, \<open>halves\<close>, \<open>time_range\<close>.
\<close>

theorem summary_empty_is_empty_dict: "get_summary_stats [] = Inr EmptyDict"
  by (simp add: get_summary_stats_def)

text \<open>
  C1 (as stated) fails: the result on the empty list is not the zeroed structure
  with \<open>total_events = 0\<close>, no teams, no actions, no halves and the range from infinity to 0.
\<close>

theorem summary_empty_not_zeroed:
  "get_summary_stats [] \<noteq>
     Inr (StatsDict \<lparr>total_events = 0, teams = {}, actions = Map.empty, halves = Map.empty,
                     time_range_start = PosInf, time_range_end = Fin 0\<rparr>)"
  by (simp add: get_summary_stats_def)

section \<open>Filtering by half\<close>

text \<open>
  C9: filtering by a half is idempotent: filtering the result of
  \<open>get_events_by_half ''1''\<close> by the same half again returns the same list.
\<close>

theorem half_filter_idempotent:
  "get_events_by_half ''1'' (get_events_by_half ''1'' E) = get_events_by_half ''1'' E"
  by (simp add: get_events_by_half_def)

section \<open>Extraction\<close>

text \<open>Facts about the conversions, \<open>_parse_instance\<close> and the extraction loop.\<close>

lemma dict_len_pos: "dict_len ev \<noteq> 0"
  by (simp add: dict_len_def)

lemma to_number_errors: "to_number conv el = Inl err \<Longrightarrow> err = ValueError \<or> err = TypeError"
  by (auto simp: to_number_def split: option.splits)

lemma to_number_text: "has_text el \<Longrightarrow> to_number conv el = Inl err \<Longrightarrow> err = ValueError"
  by (auto simp: to_number_def has_text_def split: option.splits)

lemma to_number_non_numeric: "non_numeric conv el \<Longrightarrow> to_number conv el = Inl ValueError"
  by (auto simp: to_number_def non_numeric_def split: option.splits)

lemma to_number_ok: "numeric_ok conv el \<Longrightarrow> \<exists>v. to_number conv el = Inr v"
  by (auto simp: to_number_def numeric_ok_def split: option.splits)

lemma parse_instance_errors:
  "parse_instance int_of float_of inst = Inl err \<Longrightarrow> err = ValueError \<or> err = TypeError"
  unfolding parse_instance_def
  by (auto split: sum.splits dest: to_number_errors)

lemma parse_instance_text:
  "texts_present inst \<Longrightarrow> parse_instance int_of float_of inst = Inl err \<Longrightarrow> err = ValueError"
  unfolding parse_instance_def texts_present_def
  by (auto split: sum.splits dest: to_number_text)

lemma parse_instance_bad:
  "bad_instance int_of float_of inst \<Longrightarrow> \<exists>err. parse_instance int_of float_of inst = Inl err"
  unfolding parse_instance_def bad_instance_def
  by (auto split: sum.splits dest: to_number_non_numeric)

lemma parse_instance_ok:
  "well_formed_instance int_of float_of inst \<Longrightarrow> \<exists>ev. parse_instance int_of float_of inst = Inr ev"
  unfolding parse_instance_def well_formed_instance_def
  by (auto split: sum.splits dest!: to_number_ok)

lemma parse_instance_labels:
  "parse_instance int_of float_of inst = Inr ev \<Longrightarrow> labels ev = parse_labels inst"
  unfolding parse_instance_def
  by (auto split: sum.splits)

lemma parse_all_error_source:
  "parse_all int_of float_of xs acc = (Some err, evs)
     \<Longrightarrow> \<exists>x \<in> set xs. parse_instance int_of float_of x = Inl err"
proof (induction xs arbitrary: acc)
  case Nil
  then show ?case by simp
next
  case (Cons x xs)
  then show ?case
    by (auto split: sum.splits)
qed

lemma parse_all_fails:
  "x \<in> set xs \<Longrightarrow> parse_instance int_of float_of x = Inl err
     \<Longrightarrow> \<exists>err' evs. parse_all int_of float_of xs acc = (Some err', evs)"
proof (induction xs arbitrary: acc)
  case Nil
  then show ?case by simp
next
  case (Cons y ys)
  then show ?case
    by (cases "parse_instance int_of float_of y") auto
qed

lemma parse_all_ok:
  "\<forall>x \<in> set xs. \<exists>ev. parse_instance int_of float_of x = Inr ev
     \<Longrightarrow> parse_all int_of float_of xs acc =
           (None, acc @ map (\<lambda>x. projr (parse_instance int_of float_of x)) xs)"
proof (induction xs arbitrary: acc)
  case Nil
  then show ?case by simp
next
  case (Cons y ys)
  then obtain ev where ev: "parse_instance int_of float_of y = Inr ev" by auto
  from Cons have "\<forall>x \<in> set ys. \<exists>ev. parse_instance int_of float_of x = Inr ev" by simp
  from Cons.IH [OF this] ev show ?case
    by (simp add: dict_len_pos)
qed

lemma find_descendant_children:
  "find_descendant t r = Some c \<Longrightarrow> children r \<noteq> []"
  by (cases r) (auto simp: find_descendant_def)

lemma extract_events_found:
  "root_node p = Some r \<Longrightarrow> find_descendant ''ALL_INSTANCES'' r = Some c \<Longrightarrow>
   extract_events int_of float_of p =
     (case parse_all int_of float_of (findall ''instance'' c) [] of
        (None, evs) \<Rightarrow> (Inr (Some evs), p\<lparr>events := evs\<rparr>)
      | (Some err, evs) \<Rightarrow> (Inl err, p\<lparr>events := evs\<rparr>))"
  by (frule find_descendant_children) (simp add: extract_events_def)

text \<open>
  C4 (as amended): when the loaded document has no \<open>ALL_INSTANCES\<close> element below its
  root, \<open>extract_events\<close> raises nothing, returns \<open>None\<close> and leaves the parser, and so
  \<open>self.events\<close>, as it was.
\<close>

theorem no_container_returns_none:
  assumes "root_node p = Some r" and "find_descendant ''ALL_INSTANCES'' r = None"
  shows "extract_events int_of float_of p = (Inr None, p)"
  using assms by (simp add: extract_events_def)

text \<open>The amended C4 applied to a document whose root holds only a \<open>SESSION_INFO\<close> element.\<close>

theorem no_container_returns_none_witness:
  "extract_events sample_int sample_float \<lparr>root_node = Some doc_no_container, events = []\<rparr>
     = (Inr None, \<lparr>root_node = Some doc_no_container, events = []\<rparr>)"
  using no_container_returns_none
    [of "\<lparr>root_node = Some doc_no_container, events = []\<rparr>" doc_no_container
        sample_int sample_float]
  by (simp add: doc_no_container_def find_descendant_def)

text \<open>
  C4 (as stated) fails: on that document the value returned is \<open>None\<close>, not the empty
  sequence.
\<close>

theorem no_container_not_empty_list:
  "fst (extract_events sample_int sample_float \<lparr>root_node = Some doc_no_container, events = []\<rparr>)
     \<noteq> Inr (Some [])"
  by (simp add: extract_events_def doc_no_container_def find_descendant_def)

text \<open>
  C5: when an instance of the container has an \<open>ID\<close>, \<open>start\<close> or \<open>end\<close> child (the one
  \<open>find\<close> selects) whose text does not convert to a number, \<open>extract_events\<close> ends with an
  exception and returns no events: the field is neither skipped nor replaced. The exception
  is \<open>ValueError\<close> or \<open>TypeError\<close>, and it is \<open>ValueError\<close> when no numeric child of any
  instance has the text \<open>None\<close>.
\<close>

theorem non_numeric_field_fails:
  assumes "root_node p = Some r"
    and "find_descendant ''ALL_INSTANCES'' r = Some c"
    and "inst \<in> set (findall ''instance'' c)"
    and "bad_instance int_of float_of inst"
  shows "(fst (extract_events int_of float_of p) = Inl ValueError \<or>
          fst (extract_events int_of float_of p) = Inl TypeError) \<and>
         ((\<forall>i \<in> set (findall ''instance'' c). texts_present i) \<longrightarrow>
          fst (extract_events int_of float_of p) = Inl ValueError)"
proof -
  from assms(4) obtain e0 where "parse_instance int_of float_of inst = Inl e0"
    using parse_instance_bad by blast
  with assms(3) obtain err evs
    where pa: "parse_all int_of float_of (findall ''instance'' c) [] = (Some err, evs)"
    using parse_all_fails by blast
  then obtain x where x: "x \<in> set (findall ''instance'' c)"
      "parse_instance int_of float_of x = Inl err"
    using parse_all_error_source by blast
  have res: "fst (extract_events int_of float_of p) = Inl err"
    using assms(1,2) pa by (simp add: extract_events_found)
  from x(2) have "err = ValueError \<or> err = TypeError" by (rule parse_instance_errors)
  moreover have "(\<forall>i \<in> set (findall ''instance'' c). texts_present i) \<longrightarrow> err = ValueError"
    using x parse_instance_text by blast
  ultimately show ?thesis using res by auto
qed

text \<open>C5 applied to a document whose second instance has the \<open>ID\<close> text \<open>abc\<close>.\<close>

theorem non_numeric_field_fails_witness:
  "fst (extract_events sample_int sample_float \<lparr>root_node = Some doc_bad_id, events = []\<rparr>)
     = Inl ValueError"
  using non_numeric_field_fails
    [of "\<lparr>root_node = Some doc_bad_id, events = []\<rparr>" doc_bad_id
        "Element ''ALL_INSTANCES'' None
          [Element ''instance'' None [leaf ''ID'' ''1''],
           Element ''instance'' None [leaf ''ID'' ''abc'']]"
        "Element ''instance'' None [leaf ''ID'' ''abc'']" sample_int sample_float]
  by (simp add: doc_bad_id_def sample_int_def sample_float_def leaf_def find_descendant_def findall_def
      find_child_def bad_instance_def non_numeric_def texts_present_def
      has_text_def)

text \<open>
  C7: when the document has a container and every numeric child of every instance holds
  text that converts, \<open>extract_events\<close> returns a list with exactly one event per
  \<open>instance\<close> child of the container, stored in \<open>self.events\<close> too; the event at index
  \<open>i\<close> is the one \<open>_parse_instance\<close> builds from the \<open>i\<close>-th instance in document order,
  and an instance without \<open>label\<close> children gives an event with empty labels.
\<close>

theorem extract_one_event_per_instance:
  assumes "root_node p = Some r"
    and "find_descendant ''ALL_INSTANCES'' r = Some c"
    and "\<forall>inst \<in> set (findall ''instance'' c). well_formed_instance int_of float_of inst"
  shows "\<exists>evs. fst (extract_events int_of float_of p) = Inr (Some evs) \<and>
           events (snd (extract_events int_of float_of p)) = evs \<and>
           length evs = length (findall ''instance'' c) \<and>
           (\<forall>i < length evs.
              parse_instance int_of float_of (findall ''instance'' c ! i) = Inr (evs ! i) \<and>
              (findall ''label'' (findall ''instance'' c ! i) = [] \<longrightarrow>
                 labels (evs ! i) = Map.empty))"
proof -
  let ?xs = "findall ''instance'' c"
  let ?evs = "map (\<lambda>x. projr (parse_instance int_of float_of x)) ?xs"
  have ok: "\<forall>x \<in> set ?xs. \<exists>ev. parse_instance int_of float_of x = Inr ev"
    using assms(3) parse_instance_ok by blast
  then have pa: "parse_all int_of float_of ?xs [] = (None, ?evs)"
    using parse_all_ok [of ?xs int_of float_of "[]"] by simp
  have res: "extract_events int_of float_of p = (Inr (Some ?evs), p\<lparr>events := ?evs\<rparr>)"
    using assms(1,2) pa by (simp add: extract_events_found)
  have nth: "parse_instance int_of float_of (?xs ! i) = Inr (?evs ! i)" if "i < length ?xs" for i
  proof -
    from that have "?xs ! i \<in> set ?xs" by simp
    with ok obtain ev where "parse_instance int_of float_of (?xs ! i) = Inr ev" by blast
    with that show ?thesis by simp
  qed
  have lab: "labels (?evs ! i) = Map.empty"
    if "i < length ?xs" "findall ''label'' (?xs ! i) = []" for i
    using parse_instance_labels [OF nth [OF that(1)]] that(2) by (simp add: parse_labels_def)
  show ?thesis
    using res nth lab by simp
qed

text \<open>C7 applied to a document with two instances, the second one without any child.\<close>

theorem extract_one_event_per_instance_witness:
  "\<exists>evs. fst (extract_events sample_int sample_float
                 \<lparr>root_node = Some doc_two_instances, events = []\<rparr>) = Inr (Some evs) \<and>
         length evs = 2 \<and> id_field (evs ! 0) = Some 1 \<and> start_time (evs ! 0) = Some (Fin (1 / 2)) \<and>
         labels (evs ! 0) (Some ''Team'') = Some (Some ''A'') \<and>
         id_field (evs ! 1) = None \<and> labels (evs ! 1) = Map.empty"
proof -
  let ?p = "\<lparr>root_node = Some doc_two_instances, events = []\<rparr>"
  let ?i0 = "Element ''instance'' None
             [leaf ''ID'' ''1'', leaf ''start'' ''0.5'', leaf ''end'' ''3'',
              leaf ''code'' ''12.John Smith(5) - Passes accurate'',
              Element ''label'' None [leaf ''group'' ''Team'', leaf ''text'' ''A'']]"
  let ?i1 = "Element ''instance'' None []"
  let ?c = "Element ''ALL_INSTANCES'' None [?i0, ?i1]"
  have root: "root_node ?p = Some doc_two_instances" by simp
  have cont: "find_descendant ''ALL_INSTANCES'' doc_two_instances = Some ?c"
    by (simp add: doc_two_instances_def find_descendant_def)
  have insts: "findall ''instance'' ?c = [?i0, ?i1]"
    by (simp add: findall_def)
  have wf: "\<forall>inst \<in> set (findall ''instance'' ?c). well_formed_instance sample_int sample_float inst"
    unfolding insts
    by (simp add: well_formed_instance_def numeric_ok_def find_child_def leaf_def
        sample_int_def sample_float_def)
  from extract_one_event_per_instance [OF root cont wf] obtain evs where
    res: "fst (extract_events sample_int sample_float ?p) = Inr (Some evs)" and
    len: "length evs = length (findall ''instance'' ?c)" and
    nth: "\<forall>i < length evs.
            parse_instance sample_int sample_float (findall ''instance'' ?c ! i) = Inr (evs ! i) \<and>
            (findall ''label'' (findall ''instance'' ?c ! i) = [] \<longrightarrow> labels (evs ! i) = Map.empty)"
    by blast
  from len have len2: "length evs = 2" unfolding insts by simp
  from nth [rule_format, of 0] len2
  have e0: "parse_instance sample_int sample_float ?i0 = Inr (evs ! 0)"
    unfolding insts by simp
  from nth [rule_format, of 1] len2
  have e1: "parse_instance sample_int sample_float ?i1 = Inr (evs ! 1) \<and>
      (findall ''label'' ?i1 = [] \<longrightarrow> labels (evs ! 1) = Map.empty)"
    unfolding insts by simp
  have v0: "parse_instance sample_int sample_float ?i0 =
      Inr \<lparr>id_field = Some 1, start_time = Some (Fin (1 / 2)), end_time = Some (Fin 3),
           code = Some (Some ''12.John Smith(5) - Passes accurate''),
           labels = Map.empty(Some ''Team'' \<mapsto> Some ''A'')\<rparr>"
    by (simp add: parse_instance_def to_number_def parse_labels_def add_label_def find_child_def
        findall_def leaf_def sample_int_def sample_float_def)
  have v1: "parse_instance sample_int sample_float ?i1 =
      Inr \<lparr>id_field = None, start_time = None, end_time = None, code = None, labels = Map.empty\<rparr>"
    by (simp add: parse_instance_def to_number_def parse_labels_def find_child_def findall_def)
  from e0 v0 have eq0: "evs ! 0 =
      \<lparr>id_field = Some 1, start_time = Some (Fin (1 / 2)), end_time = Some (Fin 3),
       code = Some (Some ''12.John Smith(5) - Passes accurate''),
       labels = Map.empty(Some ''Team'' \<mapsto> Some ''A'')\<rparr>"
    by simp
  have a: "id_field (evs ! 0) = Some 1 \<and> start_time (evs ! 0) = Some (Fin (1 / 2)) \<and>
      labels (evs ! 0) (Some ''Team'') = Some (Some ''A'')"
    unfolding eq0 by simp
  from e1 v1 have eq1: "evs ! 1 =
      \<lparr>id_field = None, start_time = None, end_time = None, code = None, labels = Map.empty\<rparr>"
    by simp
  have b: "id_field (evs ! 1) = None \<and> labels (evs ! 1) = Map.empty"
    unfolding eq1 by simp
  from res len2 a b show ?thesis by blast
qed

section \<open>Filtering by team\<close>

text \<open>\<open>str_contains\<close> is the substring relation.\<close>

lemma startswith_iff: "startswith s p \<longleftrightarrow> (\<exists>r. s = p @ r)"
  by (induction s p rule: startswith.induct) auto

lemma str_contains_iff: "str_contains s sub \<longleftrightarrow> (\<exists>p r. s = p @ sub @ r)"
proof (induction s)
  case Nil
  then show ?case by auto
next
  case (Cons c cs)
  show ?case
  proof
    assume "str_contains (c # cs) sub"
    then consider "startswith (c # cs) sub" | "str_contains cs sub" by auto
    then show "\<exists>p r. c # cs = p @ sub @ r"
    proof cases
      case 1
      then obtain r where "c # cs = sub @ r" by (auto simp: startswith_iff)
      then have "c # cs = [] @ sub @ r" by simp
      then show ?thesis by blast
    next
      case 2
      with Cons.IH obtain p r where "cs = p @ sub @ r" by blast
      then have "c # cs = (c # p) @ sub @ r" by simp
      then show ?thesis by blast
    qed
  next
    assume "\<exists>p r. c # cs = p @ sub @ r"
    then obtain p r where pr: "c # cs = p @ sub @ r" by blast
    show "str_contains (c # cs) sub"
    proof (cases p)
      case Nil
      with pr have "startswith (c # cs) sub" by (auto simp: startswith_iff)
      then show ?thesis by simp
    next
      case (Cons a p')
      with pr have "cs = p' @ sub @ r" by simp
      with Cons.IH have "str_contains cs sub" by blast
      then show ?thesis by simp
    qed
  qed
qed

lemma str_contains_empty: "str_contains s []"
  by (cases s) simp_all

lemma team_test_ok:
  "team_has_text e \<Longrightarrow> team_test q e = Inr (str_contains (team_label e) q)"
  by (simp add: team_test_def team_has_text_def team_label_def split: option.splits)

lemma team_test_raises: "\<not> team_has_text e \<Longrightarrow> team_test q e = Inl TypeError"
  by (simp add: team_test_def team_has_text_def)

lemma team_filter_total:
  "\<forall>e \<in> set es. team_has_text e \<Longrightarrow>
     get_events_by_team q es = Inr (filter (\<lambda>e. str_contains (team_label e) q) es)"
  by (induction es) (simp_all add: team_test_ok)

lemma team_filter_raises:
  "e \<in> set es \<Longrightarrow> \<not> team_has_text e \<Longrightarrow> get_events_by_team q es = Inl TypeError"
proof (induction es)
  case Nil
  then show ?case by simp
next
  case (Cons x xs)
  show ?case
  proof (cases "team_has_text x")
    case True
    with Cons have "get_events_by_team q xs = Inl TypeError" by auto
    with True show ?thesis by (simp add: team_test_ok)
  next
    case False
    then show ?thesis by (simp add: team_test_raises)
  qed
qed

text \<open>
  C3: the example of the claim holds on its own, but the claim does not hold for every
  event sequence: with an event whose \<open>Team\<close> label has an empty \<open>text\<close> element in the
  list, \<open>get_events_by_team\<close> raises \<open>TypeError\<close> and returns no event, not even the one
  whose label contains the queried name.
\<close>

theorem team_filter_raises_before_match:
  "get_events_by_team ''Bnei Yehuda'' [ev_team_bnei] = Inr [ev_team_bnei] \<and>
   get_events_by_team ''Bnei Yehuda'' [ev_team_empty, ev_team_bnei] = Inl TypeError"
  by (simp add: team_test_def ev_team_bnei_def ev_team_empty_def labelled_def)

text \<open>
  C10: with the empty string as the query an event without a \<open>Team\<close> label is returned,
  but an event whose \<open>Team\<close> label holds \<open>None\<close> makes the call raise \<open>TypeError\<close> instead
  of returning every event.
\<close>

theorem team_filter_empty_query_raises:
  "get_events_by_team [] [ev_no_team] = Inr [ev_no_team] \<and>
   get_events_by_team [] [ev_no_team, ev_team_empty] = Inl TypeError"
  by (simp add: team_test_def ev_no_team_def ev_team_empty_def labelled_def)

section \<open>Player names\<close>

text \<open>What \<open>split\<close> returns at the indices the code reads, and what \<open>before_first\<close> and
  \<open>after_first\<close> are.\<close>

lemma split_from_no_more: "split_from sep (Some 0) cur s = [cur @ s]"
  by (induction s arbitrary: cur) simp_all

lemma drop_sep: "sep \<noteq> [] \<Longrightarrow> drop (length sep - Suc 0) cs = drop (length sep) (c # cs)"
  by (cases sep) simp_all

lemma split_from_head:
  "sep \<noteq> [] \<Longrightarrow> m \<noteq> Some 0 \<Longrightarrow>
     \<exists>rest. split_from sep m cur s = (cur @ before_first sep s) # rest"
proof (induction s arbitrary: cur)
  case Nil
  then show ?case by simp
next
  case (Cons a s)
  from Cons.IH [OF Cons.prems, of "cur @ [a]"] Cons.prems show ?case by simp
qed

lemma py_split_first:
  "sep \<noteq> [] \<Longrightarrow> py_index (py_split sep None s) 0 = Inr (before_first sep s)"
  using split_from_head [of sep None "[]" s]
  by (auto simp: py_split_def py_index_def)

lemma split_from_once:
  "sep \<noteq> [] \<Longrightarrow> str_contains s sep \<Longrightarrow>
     split_from sep (Some 1) cur s = [cur @ before_first sep s, after_first sep s]"
proof (induction s arbitrary: cur)
  case Nil
  then show ?case by simp
next
  case (Cons c cs)
  show ?case
  proof (cases "startswith (c # cs) sep")
    case True
    with Cons.prems(1) show ?thesis
      by (simp add: split_from_no_more drop_sep [of sep cs c])
  next
    case False
    with Cons.prems have "str_contains cs sep" by simp
    from Cons.IH [OF Cons.prems(1) this] False show ?thesis by simp
  qed
qed

lemma split_from_none:
  "\<not> str_contains s sep \<Longrightarrow> split_from sep m cur s = [cur @ s]"
  by (induction s arbitrary: cur) auto

lemma py_split_second:
  "sep \<noteq> [] \<Longrightarrow> str_contains s sep \<Longrightarrow>
     py_index (py_split sep (Some 1) s) 1 = Inr (after_first sep s)"
  using split_from_once [of sep s "[]"] by (simp add: py_split_def py_index_def)

lemma py_split_second_missing:
  "\<not> str_contains s sep \<Longrightarrow> py_index (py_split sep (Some 1) s) 1 = Inl IndexError"
  by (simp add: py_split_def py_index_def split_from_none)

text \<open>before_first and after_first cut at the first occurrence\<close>

lemma cut_at_first:
  "str_contains s sep \<Longrightarrow> s = before_first sep s @ sep @ after_first sep s"
proof (induction s)
  case Nil
  then show ?case by simp
next
  case (Cons c cs)
  show ?case
  proof (cases "startswith (c # cs) sep")
    case True
    then obtain r where r: "c # cs = sep @ r" by (auto simp: startswith_iff)
    from True have "before_first sep (c # cs) = []"
      and "after_first sep (c # cs) = drop (length sep) (c # cs)" by simp_all
    moreover from r have "drop (length sep) (c # cs) = r" by simp
    ultimately show ?thesis using r by simp
  next
    case False
    with Cons show ?thesis by simp
  qed
qed

lemma before_first_earliest:
  "s = p @ sep @ r \<Longrightarrow> length (before_first sep s) \<le> length p"
proof (induction s arbitrary: p)
  case Nil
  then show ?case by simp
next
  case (Cons c cs)
  show ?case
  proof (cases p)
    case Nil
    with Cons.prems have "startswith (c # cs) sep" by (auto simp: startswith_iff)
    then show ?thesis by simp
  next
    case (Cons a p')
    with Cons.prems have "cs = p' @ sep @ r" by simp
    from Cons.IH [OF this] Cons show ?thesis by simp
  qed
qed

lemma before_first_absent: "\<not> str_contains s sep \<Longrightarrow> before_first sep s = s"
  by (induction s) auto

lemma decompose_raises:
  "has_markers c \<Longrightarrow> \<not> str_contains (before_first '' - '' c) ''.'' \<Longrightarrow>
     decompose_player_code c = Inl IndexError"
proof -
  assume h: "has_markers c" and n: "\<not> str_contains (before_first '' - '' c) ''.''"
  have 1: "py_index (py_split '' - '' None c) 0 = Inr (before_first '' - '' c)"
    by (rule py_split_first) simp
  have 2: "py_index (py_split ''.'' (Some 1) (before_first '' - '' c)) 1 = Inl IndexError"
    using n by (rule py_split_second_missing)
  from h have m: "str_contains c '' - '' \<and> str_contains c ''.'' \<and> str_contains c ''(''"
    by (simp add: has_markers_def)
  show ?thesis
    unfolding decompose_player_code_def
    using m by (simp only: 1 2 sum.case if_True simp_thms)
qed

text \<open>
  C2 (as amended): for a code that contains the three markers and has a dot in its part
  before the first \<open>" - "\<close>, the loop body yields the trimmed segment (before the first
  \<open>" - "\<close>, then after the first dot, then before the first parenthesis) when that segment
  is neither empty nor the string \<open>None\<close>, and yields no name when it is; for a code that
  lacks one of the markers it yields no name.
\<close>

theorem decompose_player_code_segment:
  "(has_markers c \<and> str_contains (before_first '' - '' c) ''.'' \<longrightarrow>
      decompose_player_code c =
        (if name_segment c \<noteq> [] \<and> name_segment c \<noteq> ''None''
         then Inr (Some (name_segment c)) else Inr None)) \<and>
   (\<not> has_markers c \<longrightarrow> decompose_player_code c = Inr None)"
proof (intro conjI impI)
  assume h: "has_markers c \<and> str_contains (before_first '' - '' c) ''.''"
  have 1: "py_index (py_split '' - '' None c) 0 = Inr (before_first '' - '' c)"
    by (rule py_split_first) simp
  have 2: "py_index (py_split ''.'' (Some 1) (before_first '' - '' c)) 1 =
             Inr (after_first ''.'' (before_first '' - '' c))"
    using h by (intro py_split_second) simp_all
  have 3: "py_index (py_split ''('' None (after_first ''.'' (before_first '' - '' c))) 0 =
             Inr (before_first ''('' (after_first ''.'' (before_first '' - '' c)))"
    by (rule py_split_first) simp
  from h have m: "str_contains c '' - '' \<and> str_contains c ''.'' \<and> str_contains c ''(''"
    by (simp add: has_markers_def)
  show "decompose_player_code c =
        (if name_segment c \<noteq> [] \<and> name_segment c \<noteq> ''None''
         then Inr (Some (name_segment c)) else Inr None)"
    unfolding decompose_player_code_def name_segment_def
    using m by (simp only: 1 2 3 sum.case Let_def if_True simp_thms)
next
  assume "\<not> has_markers c"
  then have "\<not> (str_contains c '' - '' \<and> str_contains c ''.'' \<and> str_contains c ''('')"
    unfolding has_markers_def .
  then show "decompose_player_code c = Inr None"
    unfolding decompose_player_code_def by (simp only: if_False)
qed

text \<open>C2 (as amended) on the two codes of the specification's examples.\<close>

theorem decompose_player_code_segment_witness:
  "decompose_player_code ''12.John Smith(5) - Passes accurate'' = Inr (Some ''John Smith'') \<and>
   decompose_player_code ''Passes accurate'' = Inr None"
  using decompose_player_code_segment [of "''12.John Smith(5) - Passes accurate''"]
    decompose_player_code_segment [of "''Passes accurate''"]
  by (simp add: has_markers_def name_segment_def strip_def isspace_def)

text \<open>
  C2 (as stated) fails: this code contains the three markers and its trimmed segment is
  the string \<open>None\<close>, yet no name is yielded.
\<close>

theorem decompose_none_segment_dropped:
  "has_markers ''7.None(5) - Passes accurate'' \<and>
   name_segment ''7.None(5) - Passes accurate'' = ''None'' \<and>
   decompose_player_code ''7.None(5) - Passes accurate'' = Inr None"
  by (simp add: has_markers_def name_segment_def decompose_player_code_def py_split_def
      py_index_def strip_def isspace_def)

section \<open>Time range of the summary\<close>

text \<open>Python's \<open><\<close> on floats, \<open>min\<close> and \<open>max\<close>, and the invariant of the loop.\<close>

lemma py_lt_trans: "py_lt a b \<Longrightarrow> py_lt b c \<Longrightarrow> py_lt a c"
  by (cases a; cases b; cases c) auto

lemma py_lt_total: "a \<noteq> NaN \<Longrightarrow> b \<noteq> NaN \<Longrightarrow> py_lt a b \<or> a = b \<or> py_lt b a"
  by (cases a; cases b) auto

lemma py_lt_irrefl: "\<not> py_lt a a"
  by (cases a) auto

lemma py_lt_not_nan: "py_lt a b \<Longrightarrow> a \<noteq> NaN \<and> b \<noteq> NaN"
  by (cases a; cases b) auto

lemma py_min_not_nan: "a \<noteq> NaN \<Longrightarrow> py_min a b \<noteq> NaN"
  using py_lt_not_nan by (auto simp: py_min_def split: if_splits)

lemma py_max_not_nan: "a \<noteq> NaN \<Longrightarrow> py_max a b \<noteq> NaN"
  using py_lt_not_nan by (auto simp: py_max_def split: if_splits)

lemma py_min_lower: "a \<noteq> NaN \<Longrightarrow> \<not> py_lt (py_min a b) x \<Longrightarrow> \<not> py_lt a x \<and> \<not> py_lt b x"
  by (cases a; cases b; cases x) (auto simp: py_min_def split: if_splits)

lemma py_max_upper: "a \<noteq> NaN \<Longrightarrow> \<not> py_lt x (py_max a b) \<Longrightarrow> \<not> py_lt x a \<and> \<not> py_lt x b"
  by (cases a; cases b; cases x) (auto simp: py_max_def split: if_splits)

lemma py_min_cases: "py_min a b = a \<or> py_min a b = b"
  by (simp add: py_min_def)

lemma py_max_cases: "py_max a b = a \<or> py_max a b = b"
  by (simp add: py_max_def)

lemma least_of_step:
  assumes "a \<noteq> NaN" and "least_of (insert (py_min a b) S) x"
  shows "least_of (insert a (insert b S)) x"
proof -
  from assms(2) have mem: "x \<in> insert (py_min a b) S" and nn: "x \<noteq> NaN"
    and low: "\<forall>y \<in> insert (py_min a b) S. \<not> py_lt y x"
    by (simp_all add: least_of_def)
  from mem py_min_cases [of a b] have "x \<in> insert a (insert b S)" by auto
  moreover from low have "\<not> py_lt (py_min a b) x" by simp
  with assms(1) have "\<not> py_lt a x \<and> \<not> py_lt b x" by (rule py_min_lower)
  with low have "\<forall>y \<in> insert a (insert b S). \<not> py_lt y x" by simp
  ultimately show ?thesis using nn by (simp add: least_of_def)
qed

lemma greatest_of_step:
  assumes "a \<noteq> NaN" and "greatest_of (insert (py_max a b) S) x"
  shows "greatest_of (insert a (insert b S)) x"
proof -
  from assms(2) have mem: "x \<in> insert (py_max a b) S" and nn: "x \<noteq> NaN"
    and up: "\<forall>y \<in> insert (py_max a b) S. \<not> py_lt x y"
    by (simp_all add: greatest_of_def)
  from mem py_max_cases [of a b] have "x \<in> insert a (insert b S)" by auto
  moreover from up have "\<not> py_lt x (py_max a b)" by simp
  with assms(1) have "\<not> py_lt x a \<and> \<not> py_lt x b" by (rule py_max_upper)
  with up have "\<forall>y \<in> insert a (insert b S). \<not> py_lt x y" by simp
  ultimately show ?thesis using nn by (simp add: greatest_of_def)
qed

lemma least_of_unique: "least_of S x \<Longrightarrow> least_of S y \<Longrightarrow> x = y"
  using py_lt_total [of x y] by (auto simp: least_of_def)

lemma greatest_of_unique: "greatest_of S x \<Longrightarrow> greatest_of S y \<Longrightarrow> x = y"
  using py_lt_total [of x y] by (auto simp: greatest_of_def)

lemma summary_step_ungated:
  "start_time e = None \<Longrightarrow>
     \<exists>st'. summary_step e st = Inr st' \<and> time_range_start st' = time_range_start st \<and>
            time_range_end st' = time_range_end st"
  by (simp add: summary_step_def Let_def)

lemma summary_step_gated:
  "start_time e = Some s \<Longrightarrow> end_time e = Some t \<Longrightarrow>
     \<exists>st'. summary_step e st = Inr st' \<and>
            time_range_start st' = py_min (time_range_start st) s \<and>
            time_range_end st' = py_max (time_range_end st) t"
  by (simp add: summary_step_def Let_def)

lemma summary_step_raises:
  "start_time e = Some s \<Longrightarrow> end_time e = None \<Longrightarrow> summary_step e st = Inl KeyError"
  by (simp add: summary_step_def Let_def)

lemma summary_step_errors: "summary_step e st = Inl err \<Longrightarrow> err = KeyError"
  by (auto simp: summary_step_def Let_def split: option.splits)

lemma start_times_Cons_None:
  "start_time e = None \<Longrightarrow> start_times (e # es) = start_times es"
  by (auto simp: start_times_def)

lemma start_times_Cons_Some:
  "start_time e = Some s \<Longrightarrow> start_times (e # es) = insert s (start_times es)"
  by (auto simp: start_times_def)

lemma gated_end_times_Cons_None:
  "start_time e = None \<Longrightarrow> gated_end_times (e # es) = gated_end_times es"
  by (auto simp: gated_end_times_def)

lemma gated_end_times_Cons_Some:
  "start_time e = Some s \<Longrightarrow> end_time e = Some t \<Longrightarrow>
     gated_end_times (e # es) = insert t (gated_end_times es)"
  by (auto simp: gated_end_times_def)

lemma summary_loop_range:
  "ends_present evs \<Longrightarrow> time_range_start st \<noteq> NaN \<Longrightarrow> time_range_end st \<noteq> NaN \<Longrightarrow>
     \<exists>st'. summary_loop evs st = Inr st' \<and>
       least_of (insert (time_range_start st) (start_times evs)) (time_range_start st') \<and>
       greatest_of (insert (time_range_end st) (gated_end_times evs)) (time_range_end st')"
proof (induction evs arbitrary: st)
  case Nil
  then show ?case
    by (simp add: least_of_def greatest_of_def start_times_def gated_end_times_def py_lt_irrefl)
next
  case (Cons e es)
  from Cons.prems(1) have rest: "ends_present es"
    and here: "start_time e \<noteq> None \<longrightarrow> end_time e \<noteq> None"
    by (simp_all add: ends_present_def)
  show ?case
  proof (cases "start_time e")
    case None
    from summary_step_ungated [OF None, of st] obtain st1 where
      st1: "summary_step e st = Inr st1" "time_range_start st1 = time_range_start st"
        "time_range_end st1 = time_range_end st" by blast
    from Cons.IH [OF rest, of st1] st1 Cons.prems(2,3) obtain st' where
      "summary_loop es st1 = Inr st'"
      "least_of (insert (time_range_start st) (start_times es)) (time_range_start st')"
      "greatest_of (insert (time_range_end st) (gated_end_times es)) (time_range_end st')"
      by auto
    with st1(1) None show ?thesis
      by (simp add: start_times_Cons_None gated_end_times_Cons_None)
  next
    case (Some s)
    with here obtain t where t: "end_time e = Some t" by auto
    from summary_step_gated [OF Some t, of st] obtain st1 where
      st1: "summary_step e st = Inr st1"
        "time_range_start st1 = py_min (time_range_start st) s"
        "time_range_end st1 = py_max (time_range_end st) t" by blast
    have "time_range_start st1 \<noteq> NaN" "time_range_end st1 \<noteq> NaN"
      using st1(2,3) Cons.prems(2,3) by (simp_all add: py_min_not_nan py_max_not_nan)
    from Cons.IH [OF rest this] st1(2,3) obtain st' where
      loop: "summary_loop es st1 = Inr st'" and
      l: "least_of (insert (py_min (time_range_start st) s) (start_times es)) (time_range_start st')" and
      g: "greatest_of (insert (py_max (time_range_end st) t) (gated_end_times es)) (time_range_end st')"
      by auto
    from least_of_step [OF Cons.prems(2) l] greatest_of_step [OF Cons.prems(3) g] loop st1(1)
    show ?thesis
      by (simp add: start_times_Cons_Some [OF Some] gated_end_times_Cons_Some [OF Some t])
  qed
qed

lemma summary_loop_raises:
  "e \<in> set evs \<Longrightarrow> start_time e \<noteq> None \<Longrightarrow> end_time e = None \<Longrightarrow>
     summary_loop evs st = Inl KeyError"
proof (induction evs arbitrary: st)
  case Nil
  then show ?case by simp
next
  case (Cons x xs)
  show ?case
  proof (cases "start_time x \<noteq> None \<and> end_time x = None")
    case True
    then show ?thesis by (auto simp: summary_step_raises)
  next
    case False
    with Cons.prems have "e \<in> set xs" by auto
    from Cons.IH [OF this Cons.prems(2,3)] show ?thesis
      by (auto split: sum.splits dest: summary_step_errors)
  qed
qed

text \<open>
  Where the loop does not raise, that is for a non-empty event list in which every event
  with a start time has an end time, the range starts at the least of infinity and the
  start times and ends at the greatest of 0 and the end times of the events that carry a
  start time.
\<close>

lemma summary_range_when_ends_present:
  assumes "evs \<noteq> []" and "ends_present evs"
  shows "\<exists>st. get_summary_stats evs = Inr (StatsDict st) \<and>
           least_of (insert PosInf (start_times evs)) (time_range_start st) \<and>
           greatest_of (insert (Fin 0) (gated_end_times evs)) (time_range_end st) \<and>
           (start_times evs = {} \<longrightarrow>
              time_range_start st = PosInf \<and> time_range_end st = Fin 0)"
proof -
  from summary_loop_range [OF assms(2), of "initial_stats evs"] obtain st where
    loop: "summary_loop evs (initial_stats evs) = Inr st" and
    l: "least_of (insert PosInf (start_times evs)) (time_range_start st)" and
    g: "greatest_of (insert (Fin 0) (gated_end_times evs)) (time_range_end st)"
    by (auto simp: initial_stats_def)
  have "time_range_start st = PosInf \<and> time_range_end st = Fin 0" if "start_times evs = {}"
  proof -
    from that have "gated_end_times evs = {}"
      by (auto simp: start_times_def gated_end_times_def)
    with that l g show ?thesis by (simp add: least_of_def greatest_of_def)
  qed
  with loop l g assms(1) show ?thesis
    by (simp add: get_summary_stats_def)
qed

text \<open>
  C6: the summary does fail for an event that carries a start time but no end time. The
  instance \<open><instance><start>0.5</start></instance>\<close> is extracted to such an event, the
  guard \<open>'start_time' in event\<close> lets it through, and reading \<open>event['end_time']\<close> raises
  \<open>KeyError\<close>: no range is returned, alone or after an event that carries both times.
\<close>

theorem summary_raises_on_start_without_end:
  "parse_instance sample_int sample_float (Element ''instance'' None [leaf ''start'' ''0.5''])
     = Inr ev_start_only \<and>
   get_summary_stats [ev_start_only] = Inl KeyError \<and>
   get_summary_stats [ev_timed, ev_start_only] = Inl KeyError"
  by (simp add: parse_instance_def to_number_def parse_labels_def find_child_def findall_def
      leaf_def sample_float_def get_summary_stats_def initial_stats_def summary_step_def
      labels_get_def add_team_def count_up_def ev_start_only_def ev_timed_def labelled_def)

section \<open>Totality of the query layer\<close>

text \<open>
  C8: the events extracted from a document whose instance has a \<open>start\<close> without an
  \<open>end\<close>, a \<open>Team\<close> label with an empty \<open>text\<close> element, and a code with its dot after the
  dash make three operations of the query layer raise: the team filter (\<open>TypeError\<close>),
  the summary (\<open>KeyError\<close>) and the player list (\<open>IndexError\<close>).
\<close>

theorem query_layer_raises_on_extracted_events:
  "\<exists>evs. extract_events sample_int sample_float \<lparr>root_node = Some doc_soft_fields, events = []\<rparr>
           = (Inr (Some evs), \<lparr>root_node = Some doc_soft_fields, events = evs\<rparr>) \<and>
         get_events_by_team ''A'' evs = Inl TypeError \<and>
         get_summary_stats evs = Inl KeyError \<and>
         get_player_list_from_df (map (\<lambda>e. case code e of None \<Rightarrow> None | Some t \<Rightarrow> t) evs)
           = Inl IndexError"
  by (simp add: extract_events_def doc_soft_fields_def find_descendant_def findall_def
      find_child_def leaf_def parse_instance_def to_number_def parse_labels_def add_label_def
      sample_float_def dict_len_def team_test_def get_summary_stats_def initial_stats_def
      summary_step_def labels_get_def add_team_def count_up_def get_player_list_from_df_def
      dropna_def decompose_player_code_def py_split_def py_index_def)

end
